theory Spec2Isabelle
  imports Complex_Main "HOL-Library.Sublist"
begin

section \<open>Python values\<close>

text \<open>
  The module \<open>src/agent/nlu_processor.py\<close> passes untyped dictionaries around
  (\<open>Dict[str, Any]\<close>). The values that reach the code paths modelled here are
  \<^item> scalars stored in an entity map or in a result row: \<open>None\<close>, an integer or a string;
  \<^item> the values of an NLU result or a query result: a scalar, a float (the confidence),
    a dictionary of scalars (the entity map, a result row) or a list (the result rows).

  A text is a \<open>string\<close>, each \<open>char\<close> read as the code point of the same number
  (0 to 255); Python strings with code points above 255 are outside the model.
  The confidence constants \<open>0.5\<close> and \<open>0.8\<close> are only stored and returned, never
  computed with, and are modelled by the reals of the same decimal value.
\<close>

datatype scalar = SNone | SInt int | SStr string

datatype pyval =
    PNone
  | PInt int
  | PFloat real
  | PStr string
  | PDict "string \<rightharpoonup> scalar"
  | PList "pyval list"

text \<open>
  The exceptions of the modelled paths: \<open>AttributeError\<close> (an attribute or method
  looked up on an object that has none), \<open>ValueError\<close> (\<open>int()\<close> on too long a string),
  \<open>TypeError\<close> (a message of the wrong type given to a request), and those an external
  client or the building of its prompt may raise.
\<close>

datatype error = AttributeError | KeyError | ValueError | TypeError | ServiceError

type_synonym entity_map = "string \<rightharpoonup> scalar"
type_synonym nlu_result = "string \<rightharpoonup> pyval"

text \<open>\<open>v == "literal"\<close>: true only of the string itself.\<close>

fun eq_str :: "pyval \<Rightarrow> string \<Rightarrow> bool" where
  "eq_str (PStr s) t = (s = t)"
| "eq_str _ t = False"

text \<open>\<open>dict.get(key, default)\<close>.\<close>

definition dict_get :: "('k \<rightharpoonup> 'v) \<Rightarrow> 'k \<Rightarrow> 'v \<Rightarrow> 'v" where
  "dict_get d k dflt = (case d k of Some v \<Rightarrow> v | None \<Rightarrow> dflt)"

subsection \<open>\<open>str()\<close> of a scalar\<close>

definition digit_char :: "nat \<Rightarrow> char" where
  "digit_char d = ''0123456789'' ! d"

function str_nat :: "nat \<Rightarrow> string" where
  "str_nat n = (if n < 10 then [digit_char n] else str_nat (n div 10) @ [digit_char (n mod 10)])"
  by pat_completeness auto
termination
  by (relation "measure (\<lambda>n. n)") auto

declare str_nat.simps [simp del]

definition str_int :: "int \<Rightarrow> string" where
  "str_int i = (if i < 0 then CHR ''-'' # str_nat (nat (- i)) else str_nat (nat i))"

fun py_str :: "scalar \<Rightarrow> string" where
  "py_str SNone = ''None''"
| "py_str (SInt i) = str_int i"
| "py_str (SStr s) = s"

section \<open>Character classes and string operations\<close>

text \<open>
  The classes \<open>\s\<close>, \<open>\w\<close> and \<open>\d\<close> of Python's \<open>re\<close> on \<open>str\<close> patterns (Unicode
  matching), and \<open>str.lower()\<close>, on the code points 0 to 255.
\<close>

definition is_space :: "char \<Rightarrow> bool" where
  "is_space c =
     (let n = (of_char c :: nat)
      in (9 \<le> n \<and> n \<le> 13) \<or> (28 \<le> n \<and> n \<le> 32) \<or> n = 133 \<or> n = 160)"

definition is_digit :: "char \<Rightarrow> bool" where
  "is_digit c = (let n = (of_char c :: nat) in 48 \<le> n \<and> n \<le> 57)"

definition is_word :: "char \<Rightarrow> bool" where
  "is_word c =
     (let n = (of_char c :: nat)
      in (48 \<le> n \<and> n \<le> 57) \<or> (65 \<le> n \<and> n \<le> 90) \<or> n = 95 \<or> (97 \<le> n \<and> n \<le> 122)
         \<or> n = 170 \<or> n = 178 \<or> n = 179 \<or> n = 181 \<or> n = 185 \<or> n = 186
         \<or> (188 \<le> n \<and> n \<le> 190) \<or> (192 \<le> n \<and> n \<le> 214)
         \<or> (216 \<le> n \<and> n \<le> 246) \<or> (248 \<le> n \<and> n \<le> 255))"

definition lower_char :: "char \<Rightarrow> char" where
  "lower_char c =
     (let n = (of_char c :: nat)
      in if (65 \<le> n \<and> n \<le> 90) \<or> (192 \<le> n \<and> n \<le> 214) \<or> (216 \<le> n \<and> n \<le> 222)
         then char_of (n + 32) else c)"

definition lower :: "string \<Rightarrow> string" where
  "lower s = map lower_char s"

text \<open>\<open>str.split()\<close> without arguments: the maximal runs of non-whitespace characters.\<close>

fun split_acc :: "string \<Rightarrow> string \<Rightarrow> string list" where
  "split_acc cur [] = (if cur = [] then [] else [cur])"
| "split_acc cur (c # cs) =
     (if is_space c then (if cur = [] then split_acc [] cs else cur # split_acc [] cs)
      else split_acc (cur @ [c]) cs)"

definition py_split :: "string \<Rightarrow> string list" where
  "py_split s = split_acc [] s"

text \<open>The first whitespace-delimited token of a string, if it has one.\<close>

definition first_token :: "string \<Rightarrow> string option" where
  "first_token s = (case py_split s of [] \<Rightarrow> None | t # _ \<Rightarrow> Some t)"

section \<open>The regular expressions of the module\<close>

text \<open>
  \<open>re.search\<close> returns the leftmost match. The module uses four shapes of pattern.

  A literal phrase (the intent triggers, \<open>yesterday\<close>, \<open>today\<close>): the search succeeds
  iff the phrase occurs in the text.
\<close>

fun search_literal :: "string \<Rightarrow> string \<Rightarrow> bool" where
  "search_literal p [] = prefix p []"
| "search_literal p (c # cs) = (prefix p (c # cs) \<or> search_literal p cs)"

text \<open>
  Words joined by \<open>\s+\<close> (\<open>last\s+week\<close>): after a word, at least one whitespace
  character, then the next word. No word of the module starts with whitespace, so the
  greedy \<open>\s+\<close> takes the whole run. A literal phrase is the one-word case.
\<close>

fun match_words :: "string list \<Rightarrow> string \<Rightarrow> bool" where
  "match_words [] s = True"
| "match_words [w] s = prefix w s"
| "match_words (w # v # ws) s =
     (prefix w s \<and>
      (let r = drop (length w) s
       in takeWhile is_space r \<noteq> [] \<and> match_words (v # ws) (dropWhile is_space r)))"

fun search_words :: "string list \<Rightarrow> string \<Rightarrow> bool" where
  "search_words ws [] = match_words ws []"
| "search_words ws (c # cs) = (match_words ws (c # cs) \<or> search_words ws cs)"

text \<open>
  A keyword, \<open>\s+\<close>, and a captured \<open>(\w+)\<close> (\<open>from\s+(\w+)\<close>): the result is group 1
  of the leftmost match. Whitespace and word characters are disjoint, so both greedy
  runs are maximal.
\<close>

definition match_capture :: "string \<Rightarrow> string \<Rightarrow> string option" where
  "match_capture kw s =
     (if prefix kw s then
        (let r = drop (length kw) s;
             w = takeWhile is_word (dropWhile is_space r)
         in if takeWhile is_space r \<noteq> [] \<and> w \<noteq> [] then Some w else None)
      else None)"

fun search_capture :: "string \<Rightarrow> string \<Rightarrow> string option" where
  "search_capture kw [] = match_capture kw []"
| "search_capture kw (c # cs) =
     (case match_capture kw (c # cs) of Some w \<Rightarrow> Some w | None \<Rightarrow> search_capture kw cs)"

text \<open>\<open>(\d+)\<close>: the first maximal run of digits.\<close>

definition search_digits :: "string \<Rightarrow> string option" where
  "search_digits s =
     (let ds = takeWhile is_digit (dropWhile (\<lambda>c. \<not> is_digit c) s)
      in if ds = [] then None else Some ds)"

text \<open>
  \<open>int()\<close> of a string of decimal digits. The interpreter refuses a string of more than
  \<open>sys.get_int_max_str_digits()\<close> digits, 4300 unless the process changes it (leading
  zeros count), with \<open>ValueError\<close>.
\<close>

definition int_of_digits :: "string \<Rightarrow> int" where
  "int_of_digits ds = foldl (\<lambda>a c. 10 * a + (int (of_char c) - 48)) 0 ds"

definition int_max_str_digits :: nat where
  "int_max_str_digits = 4300"

definition py_int :: "string \<Rightarrow> error + int" where
  "py_int ds =
     (if int_max_str_digits < length ds then Inl ValueError else Inr (int_of_digits ds))"

section \<open>NLUProcessor\<close>

subsection \<open>The tables built by \<open>__init__\<close>\<close>

text \<open>
  \<open>sql_templates["select"]\<close> and \<open>sql_templates["count"]\<close>, applied with
  \<open>str.format\<close>: each placeholder is replaced by its argument, and the blanks between
  the placeholders stay.
\<close>

definition format_select :: "string \<Rightarrow> string \<Rightarrow> string \<Rightarrow> string \<Rightarrow> string \<Rightarrow> string" where
  "format_select columns table where_clause order_by limit =
     ''SELECT '' @ columns @ '' FROM '' @ table @ '' '' @ where_clause @ '' '' @ order_by
       @ '' '' @ limit"

definition format_count :: "string \<Rightarrow> string \<Rightarrow> string" where
  "format_count table where_clause = ''SELECT COUNT(*) FROM '' @ table @ '' '' @ where_clause"

text \<open>\<open>intent_patterns\<close>, in the order of the dictionary literal (the order \<open>items()\<close> yields).\<close>

definition intent_patterns :: "(string \<times> string list) list" where
  "intent_patterns =
     [(''select_data'',
         [''show me'', ''display'', ''get'', ''find'', ''list'', ''what'', ''how many'',
          ''select'', ''retrieve'', ''fetch'', ''see'', ''view'']),
      (''count_data'', [''count'', ''how many'', ''total number'', ''number of'']),
      (''insert_data'', [''add'', ''insert'', ''create'', ''new'', ''add new'']),
      (''update_data'', [''update'', ''modify'', ''change'', ''edit'', ''set'']),
      (''delete_data'', [''delete'', ''remove'', ''drop'', ''clear''])]"

subsection \<open>\<open>_generate_sql_with_templates\<close>\<close>

text \<open>The time filter of the \<open>select_data\<close> branch (\<open>where_clause\<close>, lines 247 to 259).\<close>

definition select_where_clause :: "entity_map \<Rightarrow> string" where
  "select_where_clause entities =
     (case entities ''time_period'' of
        None \<Rightarrow> ''''
      | Some time_period \<Rightarrow>
          if time_period = SStr ''last_week'' then
            ''WHERE created_at >= NOW() - INTERVAL '' @ [CHR 0x27] @ ''7 days'' @ [CHR 0x27]
          else if time_period = SStr ''last_month'' then
            ''WHERE created_at >= NOW() - INTERVAL '' @ [CHR 0x27] @ ''1 month'' @ [CHR 0x27]
          else if time_period = SStr ''today'' then
            ''WHERE DATE(created_at) = CURRENT_DATE''
          else '''')"

text \<open>The time filter of the \<open>count_data\<close> branch (lines 270 to 274).\<close>

definition count_where_clause :: "entity_map \<Rightarrow> string" where
  "count_where_clause entities =
     (case entities ''time_period'' of
        None \<Rightarrow> ''''
      | Some time_period \<Rightarrow>
          if time_period = SStr ''last_week'' then
            ''WHERE created_at >= NOW() - INTERVAL '' @ [CHR 0x27] @ ''7 days'' @ [CHR 0x27]
          else '''')"

text \<open>
  \<open>entities.get\<close> raises \<open>AttributeError\<close> when \<open>entities\<close> is not a dictionary; the
  comparisons of \<open>intent\<close> with a string are false for every value that is not that
  string.
\<close>

definition generate_sql_with_templates :: "pyval \<Rightarrow> pyval \<Rightarrow> error + string" where
  "generate_sql_with_templates intent entities =
     (case entities of
        PDict d \<Rightarrow>
          (let table = dict_get d ''table'' (SStr ''unknown_table'')
           in if eq_str intent ''select_data'' then
                Inr (format_select ''*'' (py_str table) (select_where_clause d) '''' '''')
              else if eq_str intent ''count_data'' then
                Inr (format_count (py_str table) (count_where_clause d))
              else
                Inr (''SELECT * FROM '' @ py_str table @ '' LIMIT 10''))
      | _ \<Rightarrow> Inl AttributeError)"

subsection \<open>\<open>generate_sql\<close>\<close>

text \<open>
  The generative backend is a parameter. \<open>None\<close> is \<open>gemini_model = None\<close> (no API key
  configured). A configured backend is the outcome of building the prompt from the NLU
  result and asking the model: the text of the response, or the exception raised on the
  way.
\<close>

type_synonym gemini_model = "nlu_result \<Rightarrow> error + string"

text \<open>\<open>str.strip()\<close>.\<close>

definition py_strip :: "string \<Rightarrow> string" where
  "py_strip s = rev (dropWhile is_space (rev (dropWhile is_space s)))"

text \<open>
  \<open>_generate_sql_with_gemini\<close>: every exception raised in its \<open>try\<close> block, the
  \<open>ValueError\<close> of the validation included, leads to the template strategy, whose own
  exception is not caught here.
\<close>

definition generate_sql_with_gemini :: "gemini_model \<Rightarrow> nlu_result \<Rightarrow> error + string" where
  "generate_sql_with_gemini model nlu =
     (case model nlu of
        Inr response_text \<Rightarrow>
          (let sql_query = py_strip response_text
           in if list_ex (\<lambda>k. prefix k (lower sql_query))
                   [''select'', ''insert'', ''update'', ''delete'']
              then Inr sql_query
              else generate_sql_with_templates
                     (dict_get nlu ''intent'' (PStr ''unknown''))
                     (dict_get nlu ''entities'' (PDict Map.empty)))
      | Inl e \<Rightarrow>
          generate_sql_with_templates
            (dict_get nlu ''intent'' (PStr ''unknown''))
            (dict_get nlu ''entities'' (PDict Map.empty)))"

text \<open>\<open>generate_sql\<close>: any exception becomes the fallback \<open>SELECT 1\<close>.\<close>

definition generate_sql :: "gemini_model option \<Rightarrow> nlu_result \<Rightarrow> string" where
  "generate_sql gemini nlu =
     (let intent = dict_get nlu ''intent'' (PStr ''unknown'');
          entities = dict_get nlu ''entities'' (PDict Map.empty);
          r = (case gemini of
                 Some model \<Rightarrow> generate_sql_with_gemini model nlu
               | None \<Rightarrow> generate_sql_with_templates intent entities)
      in case r of Inr sql \<Rightarrow> sql | Inl e \<Rightarrow> ''SELECT 1'')"

subsection \<open>\<open>_extract_entities\<close>\<close>

text \<open>
  \<open>table_patterns\<close>, each \<open>kw\s+(\w+)\<close> given by its keyword, and \<open>time_patterns\<close>, each
  pattern given by its words (joined by \<open>\s+\<close>), in the order of the literals.
\<close>

definition table_patterns :: "string list" where
  "table_patterns = [''from'', ''table'', ''in'']"

definition time_patterns :: "(string \<times> string list) list" where
  "time_patterns =
     [(''last_week'', [''last'', ''week'']),
      (''last_month'', [''last'', ''month'']),
      (''yesterday'', [''yesterday'']),
      (''today'', [''today'']),
      (''this_week'', [''this'', ''week'']),
      (''this_month'', [''this'', ''month''])]"

text \<open>
  The two loops, each left at the first pattern that matches. The number is read last:
  when \<open>int()\<close> raises, \<open>_extract_entities\<close> raises and returns no entity map.
\<close>

fun table_loop :: "string list \<Rightarrow> string \<Rightarrow> string option" where
  "table_loop [] text_lower = None"
| "table_loop (kw # kws) text_lower =
     (case search_capture kw text_lower of
        Some w \<Rightarrow> Some w
      | None \<Rightarrow> table_loop kws text_lower)"

fun time_loop :: "(string \<times> string list) list \<Rightarrow> string \<Rightarrow> string option" where
  "time_loop [] text_lower = None"
| "time_loop ((time_key, pattern) # rest) text_lower =
     (if search_words pattern text_lower then Some time_key else time_loop rest text_lower)"

definition extract_entities :: "string \<Rightarrow> error + entity_map" where
  "extract_entities text =
     (let text_lower = lower text;
          entities = Map.empty;
          entities = (case table_loop table_patterns text_lower of
                        Some w \<Rightarrow> entities(''table'' \<mapsto> SStr w)
                      | None \<Rightarrow> entities);
          entities = (case time_loop time_patterns text_lower of
                        Some time_key \<Rightarrow> entities(''time_period'' \<mapsto> SStr time_key)
                      | None \<Rightarrow> entities)
      in case search_digits text of
           Some ds \<Rightarrow>
             (case py_int ds of
                Inr number \<Rightarrow> Inr (entities(''number'' \<mapsto> SInt number))
              | Inl e \<Rightarrow> Inl e)
         | None \<Rightarrow> Inr entities)"

subsection \<open>\<open>_process_with_patterns\<close>\<close>

text \<open>
  The nested loop over \<open>intent_patterns\<close> (lines 133 to 143), on the pair
  \<open>(intent, confidence)\<close>: the inner loop stops at the first trigger found in the text,
  the outer one as soon as the intent is no longer \<open>unknown\<close>. The exception of
  \<open>_extract_entities\<close> is not caught in \<open>_process_with_patterns\<close>, which then returns
  nothing.
\<close>

fun pattern_loop :: "string \<Rightarrow> string \<Rightarrow> string list \<Rightarrow> string \<times> real \<Rightarrow> string \<times> real" where
  "pattern_loop text_lower intent_name [] st = st"
| "pattern_loop text_lower intent_name (pattern # patterns) st =
     (if search_literal pattern text_lower then (intent_name, 0.8)
      else pattern_loop text_lower intent_name patterns st)"

fun intent_loop :: "string \<Rightarrow> (string \<times> string list) list \<Rightarrow> string \<times> real \<Rightarrow> string \<times> real" where
  "intent_loop text_lower [] st = st"
| "intent_loop text_lower ((intent_name, patterns) # rest) st =
     (let st' = pattern_loop text_lower intent_name patterns st
      in if fst st' \<noteq> ''unknown'' then st' else intent_loop text_lower rest st')"

definition determine_intent :: "string \<Rightarrow> string \<times> real" where
  "determine_intent text = intent_loop (lower text) intent_patterns (''unknown'', 0.5)"

definition process_with_patterns :: "string \<Rightarrow> error + nlu_result" where
  "process_with_patterns text =
     (let (intent, confidence) = determine_intent text
      in case extract_entities text of
           Inr entities \<Rightarrow>
             Inr [''intent'' \<mapsto> PStr intent,
                  ''confidence'' \<mapsto> PFloat confidence,
                  ''entities'' \<mapsto> PDict entities,
                  ''original_text'' \<mapsto> PStr text]
         | Inl e \<Rightarrow> Inl e)"

subsection \<open>\<open>_process_with_dialogflow\<close> and \<open>process_text\<close>\<close>

text \<open>
  The messages of the Dialogflow library that the module builds, and the library's
  request constructor: its field \<open>query_input\<close> holds a \<open>QueryInput\<close> message, and the
  constructor raises \<open>TypeError\<close> when it is given a message of another type.
\<close>

datatype df_message = TextInput string string | QueryInput df_message

record detect_intent_request =
  session :: string
  query_input :: df_message

definition DetectIntentRequest :: "string \<Rightarrow> df_message \<Rightarrow> error + detect_intent_request" where
  "DetectIntentRequest session_arg query_input_arg =
     (case query_input_arg of
        QueryInput input \<Rightarrow> Inr \<lparr>session = session_arg, query_input = query_input_arg\<rparr>
      | TextInput text_arg language_code_arg \<Rightarrow> Inl TypeError)"

text \<open>
  What a response gives when it is read: the intent's display name, the detection
  confidence and the parameters.
\<close>

record df_response =
  display_name :: string
  intent_detection_confidence :: real
  parameters :: entity_map

text \<open>
  The Dialogflow side of the processor: the three configuration values and the
  client's \<open>detect_intent\<close>, which answers a request or raises.
\<close>

record dialogflow =
  dialogflow_project_id :: string
  dialogflow_session_id :: string
  dialogflow_language_code :: string
  detect_intent :: "detect_intent_request \<Rightarrow> error + df_response"

definition session_path :: "string \<Rightarrow> string \<Rightarrow> string" where
  "session_path project session_id = ''projects/'' @ project @ ''/agent/sessions/'' @ session_id"

text \<open>
  \<open>_process_with_dialogflow\<close> gives the \<open>TextInput\<close> itself as \<open>query_input\<close> (lines 102
  to 110); every exception of its \<open>try\<close> block makes it return \<open>None\<close>.
\<close>

definition process_with_dialogflow :: "dialogflow \<Rightarrow> string \<Rightarrow> nlu_result option" where
  "process_with_dialogflow df text =
     (let session_path_value = session_path (dialogflow_project_id df) (dialogflow_session_id df);
          text_input = TextInput text (dialogflow_language_code df)
      in case DetectIntentRequest session_path_value text_input of
           Inl e \<Rightarrow> None
         | Inr request \<Rightarrow>
             (case detect_intent df request of
                Inr response \<Rightarrow>
                  Some [''intent'' \<mapsto> PStr (display_name response),
                        ''confidence'' \<mapsto> PFloat (intent_detection_confidence response),
                        ''entities'' \<mapsto> PDict (parameters response),
                        ''original_text'' \<mapsto> PStr text]
              | Inl e \<Rightarrow> None))"

text \<open>
  The attribute \<open>dialogflow_client\<close> of the processor: \<open>_setup_services\<close> sets it to a
  client or to \<open>None\<close>, and leaves it unset when an exception interrupts the setup
  before; reading it then raises \<open>AttributeError\<close>.
\<close>

datatype 'a attribute = Unset | Attr 'a

text \<open>
  The \<open>try\<close> block of \<open>process_text\<close>. The dictionary \<open>_process_with_dialogflow\<close>
  returns has four keys, so \<open>if result\<close> holds whenever it is not \<open>None\<close>.
\<close>

definition process_text_body :: "dialogflow option attribute \<Rightarrow> string \<Rightarrow> error + nlu_result" where
  "process_text_body dialogflow_client text =
     (case dialogflow_client of
        Unset \<Rightarrow> Inl AttributeError
      | Attr None \<Rightarrow> process_with_patterns text
      | Attr (Some df) \<Rightarrow>
          (case process_with_dialogflow df text of
             Some result \<Rightarrow> Inr result
           | None \<Rightarrow> process_with_patterns text))"

text \<open>\<open>process_text\<close>: any exception becomes the result \<open>unknown\<close> with confidence 0.5.\<close>

definition process_text :: "dialogflow option attribute \<Rightarrow> string \<Rightarrow> nlu_result" where
  "process_text dialogflow_client text =
     (case process_text_body dialogflow_client text of
        Inr result \<Rightarrow> result
      | Inl e \<Rightarrow>
          [''intent'' \<mapsto> PStr ''unknown'',
           ''confidence'' \<mapsto> PFloat 0.5,
           ''entities'' \<mapsto> PDict Map.empty,
           ''original_text'' \<mapsto> PStr text])"

subsection \<open>\<open>generate_response\<close>\<close>

text \<open>
  The body of the \<open>try\<close> block. \<open>query_result[0].get\<close> raises \<open>AttributeError\<close> when
  the first element is not a dictionary.
\<close>

definition response_body :: "nlu_result \<Rightarrow> pyval \<Rightarrow> error + string" where
  "response_body nlu query_result =
     (let intent = dict_get nlu ''intent'' (PStr ''unknown'')
      in if eq_str intent ''count_data'' then
           (case query_result of
              PList (row # rows) \<Rightarrow>
                (case row of
                   PDict d \<Rightarrow> Inr (''I found '' @ py_str (dict_get d ''count'' (SInt 0)) @ '' records.'')
                 | _ \<Rightarrow> Inl AttributeError)
            | _ \<Rightarrow> Inr ''I couldn't count the records.'')
         else if eq_str intent ''select_data'' then
           (case query_result of
              PList rows \<Rightarrow>
                (let count = length rows
                 in if count = 0 then Inr ''No records found.''
                    else if count = 1 then Inr ''I found 1 record.''
                    else Inr (''I found '' @ str_nat count @ '' records.''))
            | _ \<Rightarrow> Inr ''I couldn't retrieve the data.'')
         else Inr ''Query executed successfully.'')"

definition generate_response :: "nlu_result \<Rightarrow> pyval \<Rightarrow> string" where
  "generate_response nlu query_result =
     (case response_body nlu query_result of Inr msg \<Rightarrow> msg | Inl e \<Rightarrow> ''Query completed.'')"

section \<open>The local classifier as the specification words it\<close>

text \<open>
  The specification's local strategy: in the order of the trigger table, the first
  intent one of whose trigger phrases is a substring of the lower-cased text, with
  confidence 0.8; \<open>unknown\<close> with confidence 0.5 when there is none.
\<close>

definition classify_spec :: "string \<Rightarrow> string \<times> real" where
  "classify_spec text =
     (case find (\<lambda>(name, triggers). list_ex (\<lambda>p. sublist p (lower text)) triggers)
             intent_patterns of
        Some (name, triggers) \<Rightarrow> (name, 0.8)
      | None \<Rightarrow> (''unknown'', 0.5))"

section \<open>Properties\<close>

subsection \<open>Helper lemmas\<close>

lemma eq_str_iff: "eq_str v t \<longleftrightarrow> v = PStr t"
  by (cases v) auto

lemma first_token_SELECT: "first_token (''SELECT '' @ rest) = Some ''SELECT''"
  by (simp add: first_token_def py_split_def is_space_def)

lemma templates_start_SELECT:
  "\<exists>rest. generate_sql_with_templates intent (PDict d) = Inr (''SELECT '' @ rest)"
  by (simp add: generate_sql_with_templates_def format_select_def format_count_def Let_def)

subsection \<open>The template strategy\<close>

text \<open>
  C4. For every intent other than \<open>select_data\<close> and \<open>count_data\<close> and every entity map,
  the template strategy returns exactly \<open>SELECT * FROM <table> LIMIT 10\<close>, where
  \<open><table>\<close> is the table entity, or \<open>unknown_table\<close> when there is none. Whatever the
  intent, the statement it returns begins with the keyword \<open>SELECT\<close>: the template
  strategy never produces an \<open>INSERT\<close>, \<open>UPDATE\<close> or \<open>DELETE\<close> statement.
\<close>

theorem template_default_is_bounded_read:
  "(intent \<noteq> PStr ''select_data'' \<and> intent \<noteq> PStr ''count_data'' \<longrightarrow>
      generate_sql_with_templates intent (PDict entities) =
        Inr (''SELECT * FROM '' @ py_str (dict_get entities ''table'' (SStr ''unknown_table''))
               @ '' LIMIT 10''))
   \<and> (\<exists>rest. generate_sql_with_templates intent (PDict entities) = Inr (''SELECT '' @ rest))"
  by (simp add: generate_sql_with_templates_def format_select_def format_count_def Let_def
      eq_str_iff)

theorem template_default_is_bounded_read_witness:
  "PStr ''delete_data'' \<noteq> PStr ''select_data'' \<and> PStr ''delete_data'' \<noteq> PStr ''count_data''
   \<and> generate_sql_with_templates (PStr ''delete_data'') (PDict [''table'' \<mapsto> SStr ''orders''])
       = Inr ''SELECT * FROM orders LIMIT 10''
   \<and> generate_sql_with_templates (PStr ''unknown'') (PDict Map.empty)
       = Inr ''SELECT * FROM unknown_table LIMIT 10''"
  using template_default_is_bounded_read [of "PStr ''delete_data''" "[''table'' \<mapsto> SStr ''orders'']"]
        template_default_is_bounded_read [of "PStr ''unknown''" "Map.empty"]
  by (simp add: dict_get_def)

subsection \<open>Query synthesis without a generative backend\<close>

text \<open>
  C1. With no generative backend configured, \<open>generate_sql\<close> returns, for every NLU
  result (whatever its intent and entities, well formed or not), a non-empty string
  whose first whitespace-delimited token is the upper-case word \<open>SELECT\<close> (which
  upper-casing leaves as it is), one of the four statement keywords. When the template
  strategy fails inside, \<open>generate_sql\<close> returns the constant fallback query
  \<open>SELECT 1\<close>.
\<close>

theorem generate_sql_templates_first_token:
  "generate_sql None nlu \<noteq> []
   \<and> first_token (generate_sql None nlu) = Some ''SELECT''
   \<and> (generate_sql_with_templates (dict_get nlu ''intent'' (PStr ''unknown''))
          (dict_get nlu ''entities'' (PDict Map.empty)) = Inl e
        \<longrightarrow> generate_sql None nlu = ''SELECT 1'')"
proof -
  let ?r = "generate_sql_with_templates (dict_get nlu ''intent'' (PStr ''unknown''))
              (dict_get nlu ''entities'' (PDict Map.empty))"
  have g: "generate_sql None nlu = (case ?r of Inr sql \<Rightarrow> sql | Inl e \<Rightarrow> ''SELECT 1'')"
    by (simp add: generate_sql_def Let_def)
  have "\<exists>rest. generate_sql None nlu = ''SELECT '' @ rest"
  proof (cases "dict_get nlu ''entities'' (PDict Map.empty)")
    case (PDict d)
    obtain rest where
      "generate_sql_with_templates (dict_get nlu ''intent'' (PStr ''unknown'')) (PDict d)
         = Inr (''SELECT '' @ rest)"
      using templates_start_SELECT by blast
    with PDict g show ?thesis by simp
  qed (simp_all add: g generate_sql_with_templates_def)
  then obtain rest where r: "generate_sql None nlu = ''SELECT '' @ rest" ..
  have "first_token (generate_sql None nlu) = Some ''SELECT''"
    unfolding r by (rule first_token_SELECT)
  moreover have "generate_sql None nlu \<noteq> []"
    unfolding r by simp
  moreover have "?r = Inl e \<longrightarrow> generate_sql None nlu = ''SELECT 1''"
    by (simp add: g)
  ultimately show ?thesis by blast
qed

text \<open>An entity value that is not a dictionary makes the template strategy fail.\<close>

theorem generate_sql_templates_first_token_witness:
  "generate_sql_with_templates
      (dict_get [''intent'' \<mapsto> PStr ''select_data'', ''entities'' \<mapsto> PNone] ''intent''
         (PStr ''unknown''))
      (dict_get [''intent'' \<mapsto> PStr ''select_data'', ''entities'' \<mapsto> PNone] ''entities''
         (PDict Map.empty)) = Inl AttributeError
   \<and> generate_sql None [''intent'' \<mapsto> PStr ''select_data'', ''entities'' \<mapsto> PNone]
       = ''SELECT 1''"
  using generate_sql_templates_first_token
          [of "[''intent'' \<mapsto> PStr ''select_data'', ''entities'' \<mapsto> PNone]" AttributeError]
  by (simp add: dict_get_def generate_sql_with_templates_def)

subsection \<open>The local classifier\<close>

lemma search_literal_sublist: "search_literal p s \<longleftrightarrow> sublist p s"
  by (induction s) (auto simp: sublist_Cons_right)

lemma pattern_loop_eq:
  "pattern_loop txt name pats st =
     (if list_ex (\<lambda>p. sublist p txt) pats then (name, 0.8) else st)"
  by (induction pats) (auto simp: search_literal_sublist)

lemma intent_loop_eq:
  "list_all (\<lambda>(name, pats). name \<noteq> ''unknown'') ips \<Longrightarrow>
   intent_loop txt ips (''unknown'', c) =
     (case find (\<lambda>(name, pats). list_ex (\<lambda>p. sublist p txt) pats) ips of
        Some (name, pats) \<Rightarrow> (name, 0.8)
      | None \<Rightarrow> (''unknown'', c))"
  by (induction ips) (auto simp: pattern_loop_eq Let_def)

lemma determine_intent_spec: "determine_intent text = classify_spec text"
  unfolding determine_intent_def classify_spec_def
  by (rule intent_loop_eq) (simp add: intent_patterns_def)

lemma lower_fixed_sublist:
  "sublist p t \<Longrightarrow> lower p = p \<Longrightarrow> sublist p (lower t)"
  unfolding sublist_def lower_def
  by (metis map_append)

lemma lower_show_me: "lower ''show me'' = ''show me''"
  by (simp add: lower_def lower_char_def)

lemma show_me_is_select_data:
  "sublist ''show me'' text \<Longrightarrow> fst (classify_spec text) = ''select_data''"
proof -
  assume "sublist ''show me'' text"
  then have "sublist ''show me'' (lower text)"
    using lower_show_me by (rule lower_fixed_sublist)
  then show ?thesis
    by (simp add: classify_spec_def intent_patterns_def)
qed

text \<open>What \<open>_process_with_patterns\<close> returns, and when it returns.\<close>

lemma process_with_patterns_Inr:
  "process_with_patterns text = Inr r \<Longrightarrow>
     r ''intent'' = Some (PStr (fst (classify_spec text)))
     \<and> r ''confidence'' = Some (PFloat (snd (classify_spec text)))"
  by (auto simp: process_with_patterns_def determine_intent_spec split: prod.splits sum.splits)

lemma process_with_patterns_returns:
  "(\<exists>r. process_with_patterns text = Inr r) \<longleftrightarrow>
     (case search_digits text of Some ds \<Rightarrow> length ds \<le> 4300 | None \<Rightarrow> True)"
  by (auto simp: process_with_patterns_def extract_entities_def py_int_def int_max_str_digits_def
      Let_def split: prod.splits option.splits)

text \<open>The request of \<open>_process_with_dialogflow\<close> is never built, so it never answers.\<close>

lemma process_with_dialogflow_None: "process_with_dialogflow df text = None"
  by (simp add: process_with_dialogflow_def DetectIntentRequest_def)

lemma process_text_body_eq:
  "process_text_body (Attr d) text = process_with_patterns text"
  by (cases d) (simp_all add: process_text_body_def process_with_dialogflow_None)

lemma process_text_on_failure:
  "process_with_patterns text = Inl e \<Longrightarrow>
     process_text dialogflow_client text ''intent'' = Some (PStr ''unknown'')
     \<and> process_text dialogflow_client text ''confidence'' = Some (PFloat 0.5)"
  by (cases dialogflow_client)
     (simp_all add: process_text_def process_text_body_eq, simp add: process_text_body_def)

text \<open>A text with the two phrases and a run of 4301 digits.\<close>

lemma long_number_sublists:
  "sublist ''count'' (''show me the count of '' @ replicate 4301 (CHR ''9''))"
  "sublist ''show me'' (''show me the count of '' @ replicate 4301 (CHR ''9''))"
proof -
  have "sublist ''count'' ''show me the count of ''" "sublist ''show me'' ''show me the count of ''"
    by (simp_all add: sublist_code)
  then show
    "sublist ''count'' (''show me the count of '' @ replicate 4301 (CHR ''9''))"
    "sublist ''show me'' (''show me the count of '' @ replicate 4301 (CHR ''9''))"
    unfolding sublist_def by (metis append.assoc)+
qed

lemma long_number_digits:
  "search_digits (''show me the count of '' @ replicate 4301 (CHR ''9''))
     = Some (replicate 4301 (CHR ''9''))"
  by (simp add: search_digits_def is_digit_def)

lemma process_with_patterns_raises:
  "search_digits text = Some ds \<Longrightarrow> 4300 < length ds \<Longrightarrow>
     process_with_patterns text = Inl ValueError"
  by (simp add: process_with_patterns_def extract_entities_def py_int_def
      int_max_str_digits_def Let_def split: prod.splits)

lemma long_number_raises:
  "process_with_patterns (''show me the count of '' @ replicate 4301 (CHR ''9''))
     = Inl ValueError"
  by (rule process_with_patterns_raises [OF long_number_digits]) simp

text \<open>
  C5, as stated, fails: the text \<open>show me the count of\<close> followed by 4301 digits \<open>9\<close>
  contains both \<open>count\<close> and \<open>show me\<close>, but \<open>int()\<close> raises \<open>ValueError\<close> on the
  digits, \<open>_process_with_patterns\<close> returns nothing and \<open>process_text\<close> answers
  \<open>unknown\<close> with confidence 0.5, not \<open>select_data\<close>.
\<close>

theorem long_number_counterexample:
  "sublist ''count'' (''show me the count of '' @ replicate 4301 (CHR ''9''))
   \<and> sublist ''show me'' (''show me the count of '' @ replicate 4301 (CHR ''9''))
   \<and> process_with_patterns (''show me the count of '' @ replicate 4301 (CHR ''9''))
       = Inl ValueError
   \<and> process_text (Attr None) (''show me the count of '' @ replicate 4301 (CHR ''9'')) ''intent''
       = Some (PStr ''unknown'')
   \<and> process_text (Attr None) (''show me the count of '' @ replicate 4301 (CHR ''9'')) ''intent''
       \<noteq> Some (PStr ''select_data'')
   \<and> process_text (Attr None) (''show me the count of '' @ replicate 4301 (CHR ''9''))
         ''confidence'' = Some (PFloat 0.5)"
  using long_number_sublists long_number_raises process_text_on_failure [OF long_number_raises]
  by simp

text \<open>
  C5, amended. The trigger table lists the intents in the order \<open>select_data\<close>,
  \<open>count_data\<close>, \<open>insert_data\<close>, \<open>update_data\<close>, \<open>delete_data\<close>.
  \<open>_process_with_patterns\<close> returns exactly on the texts whose first run of digits, if
  there is one, has at most 4300 digits. On every such text the intent and the
  confidence it returns are those of the specification's local strategy: the first
  intent in that order with a trigger phrase occurring in the lower-cased text, with
  confidence 0.8, and \<open>unknown\<close> with confidence 0.5 when no trigger phrase occurs; in
  particular such a text that contains both \<open>count\<close> and \<open>show me\<close> is classified as
  \<open>select_data\<close>. On the other texts \<open>_process_with_patterns\<close> raises, and
  \<open>process_text\<close> answers \<open>unknown\<close> with confidence 0.5.
\<close>

theorem local_classifier_priority:
  "map fst intent_patterns =
     [''select_data'', ''count_data'', ''insert_data'', ''update_data'', ''delete_data'']
   \<and> ((\<exists>result. process_with_patterns text = Inr result) \<longleftrightarrow>
        (case search_digits text of Some ds \<Rightarrow> length ds \<le> 4300 | None \<Rightarrow> True))
   \<and> (process_with_patterns text = Inr r \<longrightarrow>
        r ''intent'' = Some (PStr (fst (classify_spec text)))
        \<and> r ''confidence'' = Some (PFloat (snd (classify_spec text)))
        \<and> (sublist ''count'' text \<and> sublist ''show me'' text \<longrightarrow>
             r ''intent'' = Some (PStr ''select_data'')))
   \<and> (process_with_patterns text = Inl e \<longrightarrow>
        process_text dialogflow_client text ''intent'' = Some (PStr ''unknown'')
        \<and> process_text dialogflow_client text ''confidence'' = Some (PFloat 0.5))"
proof -
  have a: "map fst intent_patterns =
     [''select_data'', ''count_data'', ''insert_data'', ''update_data'', ''delete_data'']"
    by (simp add: intent_patterns_def)
  have b: "process_with_patterns text = Inr r \<longrightarrow>
        r ''intent'' = Some (PStr (fst (classify_spec text)))
        \<and> r ''confidence'' = Some (PFloat (snd (classify_spec text)))
        \<and> (sublist ''count'' text \<and> sublist ''show me'' text \<longrightarrow>
             r ''intent'' = Some (PStr ''select_data''))"
    using process_with_patterns_Inr [of "text" r] show_me_is_select_data [of "text"] by auto
  have c: "process_with_patterns text = Inl e \<longrightarrow>
        process_text dialogflow_client text ''intent'' = Some (PStr ''unknown'')
        \<and> process_text dialogflow_client text ''confidence'' = Some (PFloat 0.5)"
    using process_text_on_failure by blast
  from a b c process_with_patterns_returns [of "text"] show ?thesis
    by blast
qed

lemma show_me_the_count_result:
  "process_with_patterns ''show me the count''
     = Inr [''intent'' \<mapsto> PStr ''select_data'', ''confidence'' \<mapsto> PFloat 0.8,
            ''entities'' \<mapsto> PDict Map.empty, ''original_text'' \<mapsto> PStr ''show me the count'']"
proof -
  have "determine_intent ''show me the count'' = (''select_data'', 0.8)"
    by code_simp
  moreover have "table_loop table_patterns (lower ''show me the count'') = None"
    "time_loop time_patterns (lower ''show me the count'') = None"
    "search_digits ''show me the count'' = None"
    by code_simp+
  ultimately show ?thesis
    by (simp add: process_with_patterns_def extract_entities_def)
qed

theorem local_classifier_priority_witness:
  "process_with_patterns ''show me the count''
     = Inr [''intent'' \<mapsto> PStr ''select_data'', ''confidence'' \<mapsto> PFloat 0.8,
            ''entities'' \<mapsto> PDict Map.empty, ''original_text'' \<mapsto> PStr ''show me the count'']
   \<and> sublist ''count'' ''show me the count'' \<and> sublist ''show me'' ''show me the count''
   \<and> [''intent'' \<mapsto> PStr ''select_data'', ''confidence'' \<mapsto> PFloat 0.8,
       ''entities'' \<mapsto> PDict Map.empty, ''original_text'' \<mapsto> PStr ''show me the count'']
        ''intent'' = Some (PStr ''select_data'')
   \<and> process_with_patterns (''show me the count of '' @ replicate 4301 (CHR ''9''))
       = Inl ValueError
   \<and> process_text (Attr None) (''show me the count of '' @ replicate 4301 (CHR ''9'')) ''intent''
       = Some (PStr ''unknown'')"
proof -
  have h: "sublist ''count'' ''show me the count'' \<and> sublist ''show me'' ''show me the count''"
    by (simp add: sublist_code)
  from local_classifier_priority
         [of "''show me the count''"
             "[''intent'' \<mapsto> PStr ''select_data'', ''confidence'' \<mapsto> PFloat 0.8,
               ''entities'' \<mapsto> PDict Map.empty, ''original_text'' \<mapsto> PStr ''show me the count'']"]
       local_classifier_priority
         [of "''show me the count of '' @ replicate 4301 (CHR ''9'')" _ ValueError "Attr None"]
       h show_me_the_count_result long_number_raises
  show ?thesis by blast
qed

text \<open>The two outcomes of the specification's strategy on concrete texts.\<close>

lemma classify_spec_examples:
  "classify_spec ''xyz purple elephant'' = (''unknown'', 0.5)"
  "classify_spec ''Please COUNT the rows'' = (''count_data'', 0.8)"
  by code_simp+

subsection \<open>Time filters of the template strategy\<close>

text \<open>
  C6. In the template strategy the \<open>select_data\<close> query carries the filter
  \<open>created_at >= NOW() - INTERVAL '7 days'\<close> for the time period \<open>last_week\<close>,
  \<open>created_at >= NOW() - INTERVAL '1 month'\<close> for \<open>last_month\<close> and
  \<open>DATE(created_at) = CURRENT_DATE\<close> for \<open>today\<close>, and no filter for any other time
  period (\<open>yesterday\<close>, \<open>this_week\<close>, \<open>this_month\<close>) or when there is none; the
  \<open>count_data\<close> query carries a filter for \<open>last_week\<close> only. The blanks that the
  templates leave around an empty clause are part of the strings.
\<close>

theorem time_filter_mapping:
  "(entities ''time_period'' = Some (SStr ''last_week'') \<longrightarrow>
      generate_sql_with_templates (PStr ''select_data'') (PDict entities) =
        Inr (''SELECT * FROM '' @ py_str (dict_get entities ''table'' (SStr ''unknown_table''))
             @ '' WHERE created_at >= NOW() - INTERVAL '7 days'  ''))
   \<and> (entities ''time_period'' = Some (SStr ''last_month'') \<longrightarrow>
      generate_sql_with_templates (PStr ''select_data'') (PDict entities) =
        Inr (''SELECT * FROM '' @ py_str (dict_get entities ''table'' (SStr ''unknown_table''))
             @ '' WHERE created_at >= NOW() - INTERVAL '1 month'  ''))
   \<and> (entities ''time_period'' = Some (SStr ''today'') \<longrightarrow>
      generate_sql_with_templates (PStr ''select_data'') (PDict entities) =
        Inr (''SELECT * FROM '' @ py_str (dict_get entities ''table'' (SStr ''unknown_table''))
             @ '' WHERE DATE(created_at) = CURRENT_DATE  ''))
   \<and> (entities ''time_period'' \<noteq> Some (SStr ''last_week'')
        \<and> entities ''time_period'' \<noteq> Some (SStr ''last_month'')
        \<and> entities ''time_period'' \<noteq> Some (SStr ''today'') \<longrightarrow>
      generate_sql_with_templates (PStr ''select_data'') (PDict entities) =
        Inr (''SELECT * FROM '' @ py_str (dict_get entities ''table'' (SStr ''unknown_table''))
             @ ''   ''))
   \<and> (entities ''time_period'' = Some (SStr ''last_week'') \<longrightarrow>
      generate_sql_with_templates (PStr ''count_data'') (PDict entities) =
        Inr (''SELECT COUNT(*) FROM '' @ py_str (dict_get entities ''table'' (SStr ''unknown_table''))
             @ '' WHERE created_at >= NOW() - INTERVAL '7 days'' @ [CHR 0x27]))
   \<and> (entities ''time_period'' \<noteq> Some (SStr ''last_week'') \<longrightarrow>
      generate_sql_with_templates (PStr ''count_data'') (PDict entities) =
        Inr (''SELECT COUNT(*) FROM '' @ py_str (dict_get entities ''table'' (SStr ''unknown_table''))
             @ '' ''))"
  by (simp add: generate_sql_with_templates_def format_select_def format_count_def
      select_where_clause_def count_where_clause_def Let_def split: option.splits)

theorem time_filter_mapping_witness:
  "generate_sql_with_templates (PStr ''select_data'')
      (PDict [''table'' \<mapsto> SStr ''orders'', ''time_period'' \<mapsto> SStr ''last_week''])
     = Inr ''SELECT * FROM orders WHERE created_at >= NOW() - INTERVAL '7 days'  ''
   \<and> generate_sql_with_templates (PStr ''select_data'')
      (PDict [''table'' \<mapsto> SStr ''orders'', ''time_period'' \<mapsto> SStr ''last_month''])
     = Inr ''SELECT * FROM orders WHERE created_at >= NOW() - INTERVAL '1 month'  ''
   \<and> generate_sql_with_templates (PStr ''select_data'')
      (PDict [''table'' \<mapsto> SStr ''orders'', ''time_period'' \<mapsto> SStr ''today''])
     = Inr ''SELECT * FROM orders WHERE DATE(created_at) = CURRENT_DATE  ''
   \<and> generate_sql_with_templates (PStr ''select_data'')
      (PDict [''table'' \<mapsto> SStr ''orders'', ''time_period'' \<mapsto> SStr ''yesterday''])
     = Inr ''SELECT * FROM orders   ''
   \<and> generate_sql_with_templates (PStr ''count_data'')
      (PDict [''table'' \<mapsto> SStr ''orders'', ''time_period'' \<mapsto> SStr ''last_week''])
     = Inr (''SELECT COUNT(*) FROM orders WHERE created_at >= NOW() - INTERVAL '7 days'' @ [CHR 0x27])
   \<and> generate_sql_with_templates (PStr ''count_data'')
      (PDict [''table'' \<mapsto> SStr ''orders'', ''time_period'' \<mapsto> SStr ''last_month''])
     = Inr ''SELECT COUNT(*) FROM orders ''"
  using time_filter_mapping [of "[''table'' \<mapsto> SStr ''orders'', ''time_period'' \<mapsto> SStr ''last_week'']"]
        time_filter_mapping [of "[''table'' \<mapsto> SStr ''orders'', ''time_period'' \<mapsto> SStr ''last_month'']"]
        time_filter_mapping [of "[''table'' \<mapsto> SStr ''orders'', ''time_period'' \<mapsto> SStr ''today'']"]
        time_filter_mapping [of "[''table'' \<mapsto> SStr ''orders'', ''time_period'' \<mapsto> SStr ''yesterday'']"]
  by (simp add: dict_get_def)

subsection \<open>Entity extraction\<close>

lemma again_today_parts:
  "table_loop table_patterns (lower ''again today'') = Some ''today''"
  "time_loop time_patterns (lower ''again today'') = Some ''today''"
  "search_digits ''again today'' = None"
  "py_split ''again today'' = [''again'', ''today'']"
  by code_simp+

text \<open>
  C9. The table patterns are not bounded by words: the text \<open>again today\<close> has none of
  the words \<open>from\<close>, \<open>table\<close>, \<open>in\<close>, yet entity extraction returns a table entity,
  \<open>today\<close>, the word after the letters \<open>in\<close> that end \<open>again\<close>.
\<close>

theorem table_pattern_not_word_bounded:
  "''from'' \<notin> set (py_split ''again today'')
   \<and> ''table'' \<notin> set (py_split ''again today'')
   \<and> ''in'' \<notin> set (py_split ''again today'')
   \<and> extract_entities ''again today''
       = Inr [''table'' \<mapsto> SStr ''today'', ''time_period'' \<mapsto> SStr ''today'']
   \<and> [''table'' \<mapsto> SStr ''today'', ''time_period'' \<mapsto> SStr ''today''] ''table''
       = Some (SStr ''today'')"
  by (simp add: extract_entities_def again_today_parts)

subsection \<open>The two scenarios of the local pipeline\<close>

lemma how_many_customers_intent:
  "determine_intent ''How many customers do we have?'' = (''select_data'', 0.8)"
  by code_simp

lemma how_many_customers_parts:
  "table_loop table_patterns (lower ''How many customers do we have?'') = None"
  "time_loop time_patterns (lower ''How many customers do we have?'') = None"
  "search_digits ''How many customers do we have?'' = None"
  by code_simp+

lemma how_many_customers_result:
  "process_with_patterns ''How many customers do we have?''
     = Inr [''intent'' \<mapsto> PStr ''select_data'', ''confidence'' \<mapsto> PFloat 0.8,
            ''entities'' \<mapsto> PDict Map.empty,
            ''original_text'' \<mapsto> PStr ''How many customers do we have?'']"
  by (simp add: process_with_patterns_def extract_entities_def how_many_customers_intent
      how_many_customers_parts)

lemma how_many_customers_sql:
  "generate_sql None (process_text (Attr None) ''How many customers do we have?'')
     = ''SELECT * FROM unknown_table   ''"
  by code_simp

text \<open>
  The trigger \<open>how many\<close> of \<open>count_data\<close> can never decide: the same phrase is a
  trigger of \<open>select_data\<close>, which is tested first.
\<close>

lemma how_many_never_reaches_count_data:
  "sublist ''how many'' (lower text) \<Longrightarrow> determine_intent text = (''select_data'', 0.8)"
  by (simp add: determine_intent_spec classify_spec_def intent_patterns_def)

text \<open>
  C2. The claim expects, for the text \<open>How many customers do we have?\<close>, the intent
  \<open>count_data\<close>, an empty entity map and the query
  \<open>SELECT COUNT(*) FROM unknown_table\<close>. The code gives the empty entity map, but the
  intent \<open>select_data\<close> and the query \<open>SELECT * FROM unknown_table\<close> followed by three
  blanks: \<open>how many\<close> is listed under \<open>select_data\<close> as well as under \<open>count_data\<close>,
  and \<open>select_data\<close> is tested first.
\<close>

theorem how_many_customers_classified_select_data:
  "process_with_patterns ''How many customers do we have?''
     = Inr (process_text (Attr None) ''How many customers do we have?'')
   \<and> process_text (Attr None) ''How many customers do we have?'' ''intent''
       = Some (PStr ''select_data'')
   \<and> process_text (Attr None) ''How many customers do we have?'' ''intent''
       \<noteq> Some (PStr ''count_data'')
   \<and> process_text (Attr None) ''How many customers do we have?'' ''entities''
       = Some (PDict Map.empty)
   \<and> generate_sql None (process_text (Attr None) ''How many customers do we have?'')
       = ''SELECT * FROM unknown_table   ''
   \<and> generate_sql None (process_text (Attr None) ''How many customers do we have?'')
       \<noteq> ''SELECT COUNT(*) FROM unknown_table''"
proof -
  have "process_text (Attr None) ''How many customers do we have?''
          = [''intent'' \<mapsto> PStr ''select_data'', ''confidence'' \<mapsto> PFloat 0.8,
             ''entities'' \<mapsto> PDict Map.empty,
             ''original_text'' \<mapsto> PStr ''How many customers do we have?'']"
    by (simp add: process_text_def process_text_body_def how_many_customers_result)
  then have "process_with_patterns ''How many customers do we have?''
     = Inr (process_text (Attr None) ''How many customers do we have?'')
   \<and> process_text (Attr None) ''How many customers do we have?'' ''intent''
       = Some (PStr ''select_data'')
   \<and> process_text (Attr None) ''How many customers do we have?'' ''entities''
       = Some (PDict Map.empty)"
    by (simp add: how_many_customers_result)
  then show ?thesis
    unfolding how_many_customers_sql by simp
qed

lemma orders_last_week_intent:
  "determine_intent ''Show me all orders from last week'' = (''select_data'', 0.8)"
  by code_simp

lemma orders_last_week_parts:
  "table_loop table_patterns (lower ''Show me all orders from last week'') = Some ''last''"
  "time_loop time_patterns (lower ''Show me all orders from last week'') = Some ''last_week''"
  "search_digits ''Show me all orders from last week'' = None"
  by code_simp+

lemma orders_last_week_entities:
  "extract_entities ''Show me all orders from last week''
     = Inr [''table'' \<mapsto> SStr ''last'', ''time_period'' \<mapsto> SStr ''last_week'']"
  by (simp add: extract_entities_def orders_last_week_parts)

lemma orders_last_week_result:
  "process_with_patterns ''Show me all orders from last week''
     = Inr [''intent'' \<mapsto> PStr ''select_data'', ''confidence'' \<mapsto> PFloat 0.8,
            ''entities'' \<mapsto> PDict [''table'' \<mapsto> SStr ''last'', ''time_period'' \<mapsto> SStr ''last_week''],
            ''original_text'' \<mapsto> PStr ''Show me all orders from last week'']"
  by (simp add: process_with_patterns_def orders_last_week_entities orders_last_week_intent)

lemma orders_last_week_sql:
  "generate_sql None (process_text (Attr None) ''Show me all orders from last week'')
     = ''SELECT * FROM last WHERE created_at >= NOW() - INTERVAL '7 days'  ''"
  by code_simp

text \<open>
  C7, as stated, fails: for the text \<open>Show me all orders from last week\<close> the table
  entity is \<open>last\<close>, not \<open>orders\<close>, and the query is not the string
  \<open>SELECT * FROM orders WHERE created_at >= NOW() - INTERVAL '7 days'\<close>.
\<close>

theorem orders_last_week_counterexample:
  "extract_entities ''Show me all orders from last week''
     = Inr [''table'' \<mapsto> SStr ''last'', ''time_period'' \<mapsto> SStr ''last_week'']
   \<and> [''table'' \<mapsto> SStr ''last'', ''time_period'' \<mapsto> SStr ''last_week''] ''table''
       \<noteq> Some (SStr ''orders'')
   \<and> generate_sql None (process_text (Attr None) ''Show me all orders from last week'')
       \<noteq> ''SELECT * FROM orders WHERE created_at >= NOW() - INTERVAL '7 days'' @ [CHR 0x27]"
  unfolding orders_last_week_sql orders_last_week_entities by simp

text \<open>
  C7, amended. For the text \<open>Show me all orders from last week\<close> the local pipeline
  extracts the entities \<open>{table: "last", time_period: "last_week"}\<close> (the pattern
  \<open>from\s+(\w+)\<close> captures the word after \<open>from\<close>), classifies the intent as
  \<open>select_data\<close>, and the template strategy produces
  \<open>SELECT * FROM last WHERE created_at >= NOW() - INTERVAL '7 days'\<close> followed by two
  blanks (those around the empty \<open>{order_by}\<close> and \<open>{limit}\<close> placeholders).
\<close>

theorem orders_last_week_pipeline:
  "process_with_patterns ''Show me all orders from last week''
     = Inr (process_text (Attr None) ''Show me all orders from last week'')
   \<and> process_text (Attr None) ''Show me all orders from last week'' ''entities''
     = Some (PDict [''table'' \<mapsto> SStr ''last'', ''time_period'' \<mapsto> SStr ''last_week''])
   \<and> process_text (Attr None) ''Show me all orders from last week'' ''intent''
     = Some (PStr ''select_data'')
   \<and> generate_sql None (process_text (Attr None) ''Show me all orders from last week'')
     = ''SELECT * FROM last WHERE created_at >= NOW() - INTERVAL '7 days'  ''"
proof -
  have "process_text (Attr None) ''Show me all orders from last week''
     = [''intent'' \<mapsto> PStr ''select_data'', ''confidence'' \<mapsto> PFloat 0.8,
        ''entities'' \<mapsto> PDict [''table'' \<mapsto> SStr ''last'', ''time_period'' \<mapsto> SStr ''last_week''],
        ''original_text'' \<mapsto> PStr ''Show me all orders from last week'']"
    by (simp add: process_text_def process_text_body_def orders_last_week_result)
  then have "process_with_patterns ''Show me all orders from last week''
     = Inr (process_text (Attr None) ''Show me all orders from last week'')
   \<and> process_text (Attr None) ''Show me all orders from last week'' ''entities''
     = Some (PDict [''table'' \<mapsto> SStr ''last'', ''time_period'' \<mapsto> SStr ''last_week''])
   \<and> process_text (Attr None) ''Show me all orders from last week'' ''intent''
     = Some (PStr ''select_data'')"
    by (simp add: orders_last_week_result)
  then show ?thesis
    unfolding orders_last_week_sql by simp
qed

subsection \<open>The response to a count\<close>

lemma str_int_examples: "str_int 7 = ''7''" "str_int 0 = ''0''"
  by code_simp+

text \<open>
  C3, as stated, fails: for the intent \<open>count_data\<close> and a result whose first row has no
  \<open>count\<close> field (the row \<open>{"affected_rows": 1}\<close>) the response reports 0 records, not
  that the records could not be counted.
\<close>

theorem count_without_count_field_counterexample:
  "generate_response [''intent'' \<mapsto> PStr ''count_data'']
       (PList [PDict [''affected_rows'' \<mapsto> SInt 1]]) = ''I found 0 records.''
   \<and> generate_response [''intent'' \<mapsto> PStr ''count_data'']
       (PList [PDict [''affected_rows'' \<mapsto> SInt 1]]) \<noteq> ''I couldn't count the records.''"
proof -
  have "generate_response [''intent'' \<mapsto> PStr ''count_data'']
          (PList [PDict [''affected_rows'' \<mapsto> SInt 1]]) = ''I found 0 records.''"
    by code_simp
  then show ?thesis by simp
qed

text \<open>
  C3, amended. For the intent \<open>count_data\<close> and a non-empty result sequence whose first
  element is a row, the response reports the value of that row's \<open>count\<close> field, and
  reports 0 when the row has no such field (\<open>I found 0 records.\<close>); for an empty
  sequence it is \<open>I couldn't count the records.\<close>
\<close>

theorem count_response:
  "nlu ''intent'' = Some (PStr ''count_data'') \<longrightarrow>
     (row ''count'' = Some c \<longrightarrow>
        generate_response nlu (PList (PDict row # rows)) = ''I found '' @ py_str c @ '' records.'')
   \<and> (row ''count'' = None \<longrightarrow>
        generate_response nlu (PList (PDict row # rows)) = ''I found 0 records.'')
   \<and> generate_response nlu (PList []) = ''I couldn't count the records.''"
  by (simp add: generate_response_def response_body_def dict_get_def str_int_examples)

theorem count_response_witness:
  "generate_response [''intent'' \<mapsto> PStr ''count_data''] (PList [PDict [''count'' \<mapsto> SInt 7]])
     = ''I found 7 records.''
   \<and> generate_response [''intent'' \<mapsto> PStr ''count_data'']
       (PList [PDict [''affected_rows'' \<mapsto> SInt 1]]) = ''I found 0 records.''
   \<and> generate_response [''intent'' \<mapsto> PStr ''count_data''] (PList [])
     = ''I couldn't count the records.''"
  using count_response [of "[''intent'' \<mapsto> PStr ''count_data'']" "[''count'' \<mapsto> SInt 7]" "SInt 7" "[]"]
        count_response [of "[''intent'' \<mapsto> PStr ''count_data'']" "[''affected_rows'' \<mapsto> SInt 1]" _ "[]"]
  by (simp add: str_int_examples)

subsection \<open>\<open>process_text\<close>\<close>

lemma classify_spec_label:
  "fst (classify_spec text) \<in>
     {''select_data'', ''count_data'', ''insert_data'', ''update_data'', ''delete_data'', ''unknown''}"
  by (simp add: classify_spec_def intent_patterns_def)

lemma classify_spec_confidence:
  "snd (classify_spec text) = 0.8 \<or> snd (classify_spec text) = 0.5"
  by (simp add: classify_spec_def split: option.splits prod.splits)

lemma process_text_configured:
  "process_text (Attr (Some df)) text = process_text (Attr None) text"
  by (simp add: process_text_def process_text_body_eq)

text \<open>
  C8. For every input text and every state of the Dialogflow client (not configured,
  configured, or left unset by a failed setup), \<open>process_text\<close> returns an intent of
  the label set \<open>select_data\<close>, \<open>count_data\<close>, \<open>insert_data\<close>, \<open>update_data\<close>,
  \<open>delete_data\<close>, \<open>unknown\<close> and a confidence between 0 and 1. With a configured
  client the result is that of the local strategy: \<open>_process_with_dialogflow\<close> returns
  \<open>None\<close> on every text, so no intent name reported by Dialogflow ever reaches the
  result.
\<close>

theorem process_text_intent_and_confidence:
  "(\<exists>l c. process_text dialogflow_client text ''intent'' = Some (PStr l)
         \<and> l \<in> {''select_data'', ''count_data'', ''insert_data'', ''update_data'',
                 ''delete_data'', ''unknown''}
         \<and> process_text dialogflow_client text ''confidence'' = Some (PFloat c)
         \<and> 0 \<le> c \<and> c \<le> 1)
   \<and> process_with_dialogflow df text = None
   \<and> process_text (Attr (Some df)) text = process_text (Attr None) text"
proof -
  have fallback: "\<exists>l c. process_text dialogflow_client text ''intent'' = Some (PStr l)
         \<and> l \<in> {''select_data'', ''count_data'', ''insert_data'', ''update_data'',
                 ''delete_data'', ''unknown''}
         \<and> process_text dialogflow_client text ''confidence'' = Some (PFloat c)
         \<and> 0 \<le> c \<and> c \<le> 1"
    if "process_text_body dialogflow_client text = Inl e" for e
  proof -
    have "process_text dialogflow_client text ''intent'' = Some (PStr ''unknown'')
       \<and> process_text dialogflow_client text ''confidence'' = Some (PFloat 0.5)"
      using that by (simp add: process_text_def)
    then show ?thesis
      by (intro exI [of _ "''unknown''"] exI [of _ "0.5"]) simp
  qed
  have answer: "\<exists>l c. process_text dialogflow_client text ''intent'' = Some (PStr l)
         \<and> l \<in> {''select_data'', ''count_data'', ''insert_data'', ''update_data'',
                 ''delete_data'', ''unknown''}
         \<and> process_text dialogflow_client text ''confidence'' = Some (PFloat c)
         \<and> 0 \<le> c \<and> c \<le> 1"
    if r: "process_text_body dialogflow_client text = Inr r" for r
  proof -
    obtain d where "dialogflow_client = Attr d"
      using r by (cases dialogflow_client) (simp_all add: process_text_body_def)
    with r have "process_with_patterns text = Inr r"
      by (simp add: process_text_body_eq)
    then have f: "r ''intent'' = Some (PStr (fst (classify_spec text)))
       \<and> r ''confidence'' = Some (PFloat (snd (classify_spec text)))"
      by (rule process_with_patterns_Inr)
    have "0 \<le> snd (classify_spec text) \<and> snd (classify_spec text) \<le> 1"
      using classify_spec_confidence [of "text"] by auto
    moreover have "process_text dialogflow_client text = r"
      using r by (simp add: process_text_def)
    ultimately show ?thesis
      using f classify_spec_label [of "text"] by blast
  qed
  have "\<exists>l c. process_text dialogflow_client text ''intent'' = Some (PStr l)
         \<and> l \<in> {''select_data'', ''count_data'', ''insert_data'', ''update_data'',
                 ''delete_data'', ''unknown''}
         \<and> process_text dialogflow_client text ''confidence'' = Some (PFloat c)
         \<and> 0 \<le> c \<and> c \<le> 1"
    using fallback answer by (cases "process_text_body dialogflow_client text") blast+
  then show ?thesis
    using process_with_dialogflow_None process_text_configured by blast
qed

text \<open>The three states of the client on concrete texts.\<close>

lemma process_text_examples:
  "process_text Unset ''show me the count'' ''intent'' = Some (PStr ''unknown'')"
  "process_text (Attr None) ''show me the count'' ''intent'' = Some (PStr ''select_data'')"
  "process_text (Attr (Some df)) ''show me the count'' ''intent'' = Some (PStr ''select_data'')"
  by (simp_all add: process_text_def process_text_body_eq show_me_the_count_result,
      simp add: process_text_body_def)

subsection \<open>\<open>generate_sql\<close> on a dictionary with missing keys\<close>

text \<open>
  C10, as stated, fails: the dictionary \<open>{"intent": "count_data"}\<close> has no \<open>entities\<close>
  key, and without a generative backend \<open>generate_sql\<close> returns the count query for it,
  not \<open>SELECT * FROM unknown_table LIMIT 10\<close>.
\<close>

theorem missing_entities_counterexample:
  "[''intent'' \<mapsto> PStr ''count_data''] ''entities'' = None
   \<and> generate_sql None [''intent'' \<mapsto> PStr ''count_data''] = ''SELECT COUNT(*) FROM unknown_table ''
   \<and> generate_sql None [''intent'' \<mapsto> PStr ''count_data''] \<noteq> ''SELECT * FROM unknown_table LIMIT 10''"
  by (simp add: generate_sql_def generate_sql_with_templates_def dict_get_def format_count_def
      count_where_clause_def)

text \<open>
  C10, amended. Without a generative backend, \<open>generate_sql\<close> on a dictionary that lacks
  the \<open>intent\<close> key, the \<open>entities\<close> key or both does not fail: it takes \<open>unknown\<close> for
  a missing intent and the empty entity map for missing entities, and returns the
  template query of the resulting pair. That query is
  \<open>SELECT * FROM unknown_table LIMIT 10\<close> when both keys are missing;
  \<open>SELECT * FROM <table> LIMIT 10\<close> with the table of the given entities when only the
  intent is missing; and the template query of the given intent on \<open>unknown_table\<close>
  when only the entities are missing.
\<close>

theorem generate_sql_missing_keys:
  "(nlu ''intent'' = None \<and> nlu ''entities'' = None \<longrightarrow>
      generate_sql None nlu = ''SELECT * FROM unknown_table LIMIT 10'')
   \<and> (nlu ''intent'' = None \<and> nlu ''entities'' = Some (PDict entities) \<longrightarrow>
      Inr (generate_sql None nlu) = generate_sql_with_templates (PStr ''unknown'') (PDict entities)
      \<and> generate_sql None nlu =
          ''SELECT * FROM '' @ py_str (dict_get entities ''table'' (SStr ''unknown_table''))
            @ '' LIMIT 10'')
   \<and> (nlu ''intent'' = Some intent \<and> nlu ''entities'' = None \<longrightarrow>
      Inr (generate_sql None nlu) = generate_sql_with_templates intent (PDict Map.empty)
      \<and> generate_sql None nlu =
          (if intent = PStr ''select_data'' then ''SELECT * FROM unknown_table   ''
           else if intent = PStr ''count_data'' then ''SELECT COUNT(*) FROM unknown_table ''
           else ''SELECT * FROM unknown_table LIMIT 10''))"
  by (simp add: generate_sql_def generate_sql_with_templates_def dict_get_def format_count_def
      format_select_def count_where_clause_def select_where_clause_def eq_str_iff)

theorem generate_sql_missing_keys_witness:
  "generate_sql None Map.empty = ''SELECT * FROM unknown_table LIMIT 10''
   \<and> generate_sql None [''entities'' \<mapsto> PDict [''table'' \<mapsto> SStr ''orders'']]
       = ''SELECT * FROM orders LIMIT 10''
   \<and> generate_sql None [''intent'' \<mapsto> PStr ''select_data'']
       = ''SELECT * FROM unknown_table   ''
   \<and> generate_sql None [''intent'' \<mapsto> PStr ''delete_data'']
       = ''SELECT * FROM unknown_table LIMIT 10''"
  using generate_sql_missing_keys [of Map.empty]
        generate_sql_missing_keys [of "[''entities'' \<mapsto> PDict [''table'' \<mapsto> SStr ''orders'']]"
                                      "[''table'' \<mapsto> SStr ''orders'']"]
        generate_sql_missing_keys [of "[''intent'' \<mapsto> PStr ''select_data'']" _ "PStr ''select_data''"]
        generate_sql_missing_keys [of "[''intent'' \<mapsto> PStr ''delete_data'']" _ "PStr ''delete_data''"]
  by (simp add: dict_get_def)

end
